theory Spec2Isabelle
  imports Main
begin

section \<open>The chat store (Frontend/lib/chat-store.ts)\<close>

text \<open>
  The store is a zustand object; every \<^verbatim>\<open>set(...)\<close> of the source becomes an update of
  the record below. Strings are lists of characters. \<^verbatim>\<open>console\<close> output is not
  part of the model.
\<close>

datatype role = User | Assistant

record Message =
  msg_id :: int
  role :: role
  content :: string
  created_at :: string

record ChatState =
  messages :: "Message list"
  isLoading :: bool
  isStreaming :: bool
  currentMessage :: string
  streamingMessage :: string
  currentConversationId :: "int option"

text \<open>The initial store of \<^verbatim>\<open>create<ChatState>()\<close> (lines 41-46).\<close>

definition initialState :: ChatState where
  "initialState =
     \<lparr>messages = [], isLoading = False, isStreaming = False, currentMessage = [],
      streamingMessage = [], currentConversationId = None\<rparr>"

text \<open>The session is idle when neither busy flag is raised.\<close>

definition idle :: "ChatState \<Rightarrow> bool" where
  "idle s = (\<not> isLoading s \<and> \<not> isStreaming s)"

section \<open>The world around the store\<close>

text \<open>
  What the store's asynchronous operations do outside the store is kept in a trace:
  the requests that reach the network (\<^verbatim>\<open>fetch\<close> in api.ts) and the calls of the
  \<^verbatim>\<open>onConversationCreated\<close> callback. \<open>ticks\<close> counts the readings of the clock
  (\<^verbatim>\<open>Date.now()\<close> together with \<^verbatim>\<open>new Date().toISOString()\<close>) taken so far.
\<close>

datatype io =
    Create_request string
  | Stream_request int string
  | Get_request int
  | Conversation_created int

record world =
  store :: ChatState
  trace :: "io list"
  ticks :: nat

definition set_state :: "(ChatState \<Rightarrow> ChatState) \<Rightarrow> world \<Rightarrow> world" where
  "set_state f w = w\<lparr>store := f (store w)\<rparr>"

definition emit :: "io \<Rightarrow> world \<Rightarrow> world" where
  "emit e w = w\<lparr>trace := trace w @ [e]\<rparr>"

definition tick :: "world \<Rightarrow> world" where
  "tick w = w\<lparr>ticks := Suc (ticks w)\<rparr>"

subsection \<open>The wire protocol as streamChat sees it (api.ts, lines 264-298)\<close>

text \<open>
  One \<^verbatim>\<open>reader.read()\<close> yields a decoded chunk, split at newlines. A line is
  classified by what lines 271-278 make of it: it does not start with \<^verbatim>\<open>data: \<close>;
  its payload trims to the empty string; \<^verbatim>\<open>JSON.parse\<close> throws on it; or it parses
  to an object, which the \<^verbatim>\<open>switch\<close> reads by its \<^verbatim>\<open>type\<close> field.
  \<open>Assistant_chunk None\<close> is a chunk object without a \<^verbatim>\<open>content\<close> field.
\<close>

datatype sse_event =
    Assistant_chunk "string option"
  | Assistant_complete
  | Done
  | Error_event string
  | Other_type

datatype sse_line = Not_data | Empty_data | Bad_json | Json sse_event

text \<open>A read resolves with a value or rejects; the end of the list is \<^verbatim>\<open>done: true\<close>.\<close>

datatype read_result = Value "sse_line list" | Read_rejects string

text \<open>
  The outcomes of api.ts \<^verbatim>\<open>sendMessage\<close> (lines 203-226): no token in local storage
  (nothing is fetched), a request that throws (network failure or a response that is not
  ok, with the message thrown), a response without a body, or a body to read.
\<close>

datatype transport =
    No_token
  | Request_fails string
  | No_body
  | Body "read_result list"

text \<open>\<^verbatim>\<open>localStorage.getItem('user')\<close>, and what \<^verbatim>\<open>JSON.parse\<close> makes of it.\<close>

datatype stored_user = No_user | Corrupt_user string | Valid_user

record ApiMessage =
  api_role :: role
  api_content :: string
  timestamp :: string

text \<open>
  The environment of one call: the outcome of each collaborator, were it called.
  \<open>Inl m\<close> is a thrown \<^verbatim>\<open>Error\<close> with message \<open>m\<close>.
\<close>

record env =
  userData :: stored_user
  createConversation :: "string + int"
  getConversation :: "string + ApiMessage list"
  stream :: transport
  clock :: "nat \<Rightarrow> int \<times> string"

section \<open>streamChat (api.ts, lines 245-316)\<close>

text \<open>
  A callback takes the world to a new world and may throw: \<open>Some m\<close> is a thrown
  \<^verbatim>\<open>Error\<close> with message \<open>m\<close>.
\<close>

type_synonym 'a callback = "'a \<Rightarrow> world \<Rightarrow> string option \<times> world"

datatype flow = Continue | Return

text \<open>
  The body of the \<^verbatim>\<open>for\<close> loop (lines 271-303) on the pair of \<^verbatim>\<open>fullMessage\<close>
  and the world. The \<^verbatim>\<open>switch\<close> sits inside the \<^verbatim>\<open>try\<close> whose \<^verbatim>\<open>catch\<close>
  only logs, so whatever is thrown there (by \<^verbatim>\<open>JSON.parse\<close>, by a callback, or by
  line 296) ends the processing of the line and nothing more.
\<close>

fun handle_line ::
  "string callback \<Rightarrow> string callback option \<Rightarrow> string callback option \<Rightarrow>
   sse_line \<Rightarrow> string \<times> world \<Rightarrow> flow \<times> string \<times> world" where
  "handle_line onChunk onComplete onError Not_data (fullMessage, w) = (Continue, fullMessage, w)"
| "handle_line onChunk onComplete onError Empty_data (fullMessage, w) = (Continue, fullMessage, w)"
| "handle_line onChunk onComplete onError Bad_json (fullMessage, w) = (Continue, fullMessage, w)"
| "handle_line onChunk onComplete onError (Json (Assistant_chunk c)) (fullMessage, w) =
     (case c of
        None \<Rightarrow> (Continue, fullMessage, w)
      | Some t \<Rightarrow>
          if t = [] then (Continue, fullMessage, w)
          else (Continue, fullMessage @ t, snd (onChunk t w)))"
| "handle_line onChunk onComplete onError (Json Assistant_complete) (fullMessage, w) =
     (case onComplete of
        None \<Rightarrow> (Continue, fullMessage, w)
      | Some f \<Rightarrow> (Continue, fullMessage, snd (f fullMessage w)))"
| "handle_line onChunk onComplete onError (Json Done) (fullMessage, w) = (Return, fullMessage, w)"
| "handle_line onChunk onComplete onError (Json (Error_event e)) (fullMessage, w) =
     (case onError of
        None \<Rightarrow> (Continue, fullMessage, w)
      | Some f \<Rightarrow> (Continue, fullMessage, snd (f e w)))"
| "handle_line onChunk onComplete onError (Json Other_type) (fullMessage, w) = (Continue, fullMessage, w)"

text \<open>\<^verbatim>\<open>for (const line of lines)\<close>; \<open>Return\<close> is the \<^verbatim>\<open>return\<close> of line 291.\<close>

fun for_lines ::
  "string callback \<Rightarrow> string callback option \<Rightarrow> string callback option \<Rightarrow>
   sse_line list \<Rightarrow> string \<times> world \<Rightarrow> flow \<times> string \<times> world" where
  "for_lines onChunk onComplete onError [] st = (Continue, st)"
| "for_lines onChunk onComplete onError (l # ls) st =
     (case handle_line onChunk onComplete onError l st of
        (Return, st') \<Rightarrow> (Return, st')
      | (Continue, st') \<Rightarrow> for_lines onChunk onComplete onError ls st')"

text \<open>
  \<^verbatim>\<open>while (true)\<close> over the reads (lines 263-305): the result is what leaves the
  inner \<^verbatim>\<open>try ... finally\<close>, a thrown message or a normal end.
\<close>

fun read_loop ::
  "string callback \<Rightarrow> string callback option \<Rightarrow> string callback option \<Rightarrow>
   read_result list \<Rightarrow> string \<times> world \<Rightarrow> string option \<times> world" where
  "read_loop onChunk onComplete onError [] (fullMessage, w) = (None, w)"
| "read_loop onChunk onComplete onError (Read_rejects m # rs) (fullMessage, w) = (Some m, w)"
| "read_loop onChunk onComplete onError (Value ls # rs) st =
     (case for_lines onChunk onComplete onError ls st of
        (Return, fullMessage, w) \<Rightarrow> (None, w)
      | (Continue, st') \<Rightarrow> read_loop onChunk onComplete onError rs st')"

text \<open>The outer \<^verbatim>\<open>try\<close> (lines 253-308): opening the stream, then the loop.\<close>

definition open_and_read ::
  "int \<Rightarrow> string \<Rightarrow> string callback \<Rightarrow> string callback option \<Rightarrow> string callback option \<Rightarrow>
   transport \<Rightarrow> world \<Rightarrow> string option \<times> world" where
  "open_and_read conversationId message onChunk onComplete onError t w =
     (case t of
        No_token \<Rightarrow> (Some ''No auth token available'', w)
      | Request_fails m \<Rightarrow> (Some m, emit (Stream_request conversationId message) w)
      | No_body \<Rightarrow> (Some ''No stream received'', emit (Stream_request conversationId message) w)
      | Body reads \<Rightarrow>
          read_loop onChunk onComplete onError reads
            ([], emit (Stream_request conversationId message) w))"

text \<open>
  The outer \<^verbatim>\<open>catch\<close> (lines 309-315): \<^verbatim>\<open>onError\<close> is told, and the error is
  thrown again, unless \<^verbatim>\<open>onError\<close> itself throws first.
\<close>

definition streamChat ::
  "int \<Rightarrow> string \<Rightarrow> string callback \<Rightarrow> string callback option \<Rightarrow> string callback option \<Rightarrow>
   transport \<Rightarrow> world \<Rightarrow> string option \<times> world" where
  "streamChat conversationId message onChunk onComplete onError t w =
     (case open_and_read conversationId message onChunk onComplete onError t w of
        (None, w') \<Rightarrow> (None, w')
      | (Some m, w') \<Rightarrow>
          (case onError of
             None \<Rightarrow> (Some m, w')
           | Some f \<Rightarrow>
               (case f m w' of
                  (None, w'') \<Rightarrow> (Some m, w'')
                | (Some m', w'') \<Rightarrow> (Some m', w''))))"

section \<open>The store's operations (chat-store.ts)\<close>

definition clearStreamingMessage :: "world \<Rightarrow> world" where
  "clearStreamingMessage = set_state (\<lambda>s. s\<lparr>streamingMessage := []\<rparr>)"

definition clearMessages :: "world \<Rightarrow> world" where
  "clearMessages =
     set_state (\<lambda>s. s\<lparr>messages := [], streamingMessage := [], currentMessage := []\<rparr>)"

definition clearChat :: "world \<Rightarrow> world" where
  "clearChat =
     set_state (\<lambda>s. s\<lparr>messages := [], streamingMessage := [], currentMessage := [],
                       currentConversationId := None\<rparr>)"

definition setCurrentConversation :: "int option \<Rightarrow> world \<Rightarrow> world" where
  "setCurrentConversation conversationId = set_state (\<lambda>s. s\<lparr>currentConversationId := conversationId\<rparr>)"

subsection \<open>loadConversation (lines 74-101)\<close>

text \<open>
  \<^verbatim>\<open>conversation.messages.map((msg, index) => ...)\<close>: the clock is read once for
  each message, \<open>n\<close> being the number of readings taken before.
\<close>

fun convert :: "env \<Rightarrow> nat \<Rightarrow> nat \<Rightarrow> ApiMessage list \<Rightarrow> Message list" where
  "convert e n index [] = []"
| "convert e n index (msg # msgs) =
     \<lparr>msg_id = fst (clock e n) + int index, role = api_role msg, content = api_content msg,
      created_at = timestamp msg\<rparr> # convert e (Suc n) (Suc index) msgs"

text \<open>
  The \<^verbatim>\<open>try\<close> block. Only the presence of the stored user is tested here, it is not
  parsed. The result is the thrown message, if any.
\<close>

definition loadConversation_try :: "env \<Rightarrow> int \<Rightarrow> world \<Rightarrow> string option \<times> world" where
  "loadConversation_try e conversationId w =
     (if userData e = No_user then (Some ''User not authenticated'', w)
      else
        (case getConversation e of
           Inl m \<Rightarrow> (Some m, emit (Get_request conversationId) w)
         | Inr msgs \<Rightarrow>
             (None,
              set_state (\<lambda>s. s\<lparr>messages := convert e (ticks w) 0 msgs,
                                currentConversationId := Some conversationId,
                                isLoading := False\<rparr>)
                ((emit (Get_request conversationId) w)\<lparr>ticks := ticks w + length msgs\<rparr>))))"

text \<open>The whole operation; the first component is what the returned promise rejects with.\<close>

definition loadConversation :: "env \<Rightarrow> int \<Rightarrow> world \<Rightarrow> string option \<times> world" where
  "loadConversation e conversationId w =
     (case loadConversation_try e conversationId (set_state (\<lambda>s. s\<lparr>isLoading := True\<rparr>) w) of
        (None, w') \<Rightarrow> (None, w')
      | (Some m, w') \<Rightarrow> (None, set_state (\<lambda>s. s\<lparr>isLoading := False\<rparr>) w'))"

subsection \<open>sendMessage (lines 103-176)\<close>

definition userMessage :: "env \<Rightarrow> nat \<Rightarrow> string \<Rightarrow> Message" where
  "userMessage e n message =
     \<lparr>msg_id = fst (clock e n), role = User, content = message, created_at = snd (clock e n)\<rparr>"

definition finalAssistantMessage :: "env \<Rightarrow> nat \<Rightarrow> string \<Rightarrow> Message" where
  "finalAssistantMessage e n fullMessage =
     \<lparr>msg_id = fst (clock e n) + 1, role = Assistant, content = fullMessage,
      created_at = snd (clock e n)\<rparr>"

text \<open>The three callbacks handed to \<open>streamChat\<close> (lines 143-169).\<close>

definition onChunk_cb :: "string callback" where
  "onChunk_cb chunk w =
     (None, set_state (\<lambda>s. s\<lparr>streamingMessage := streamingMessage s @ chunk\<rparr>) w)"

definition onComplete_cb :: "env \<Rightarrow> string callback" where
  "onComplete_cb e fullMessage w =
     (None,
      set_state (\<lambda>s. s\<lparr>messages := messages s @ [finalAssistantMessage e (ticks w) fullMessage],
                        streamingMessage := [],
                        isStreaming := False,
                        isLoading := False\<rparr>)
        (tick w))"

definition onError_cb :: "string callback" where
  "onError_cb error w =
     (Some error, set_state (\<lambda>s. s\<lparr>isLoading := False, isStreaming := False\<rparr>) w)"

text \<open>
  Lines 124-170, once the conversation id is known: the user's message is appended,
  the buffer is emptied and the stream is read.
\<close>

definition send_and_stream :: "env \<Rightarrow> int \<Rightarrow> string \<Rightarrow> world \<Rightarrow> string option \<times> world" where
  "send_and_stream e conversationId message w =
     streamChat conversationId message onChunk_cb (Some (onComplete_cb e)) (Some onError_cb)
       (stream e)
       (set_state (\<lambda>s. s\<lparr>streamingMessage := []\<rparr>)
          (set_state (\<lambda>s. s\<lparr>messages := messages s @ [userMessage e (ticks w) message]\<rparr>)
             (tick w)))"

text \<open>
  The \<^verbatim>\<open>try\<close> block (lines 108-170). \<open>conversationId\<close> is the id read by
  \<^verbatim>\<open>get()\<close> on line 104; \<^verbatim>\<open>!conversationId\<close> holds for \<^verbatim>\<open>null\<close> and for 0,
  and then a conversation is created first (lines 117-122).
\<close>

definition create_and_send :: "env \<Rightarrow> string \<Rightarrow> world \<Rightarrow> string option \<times> world" where
  "create_and_send e message w =
     (case createConversation e of
        Inl m \<Rightarrow> (Some m, emit (Create_request message) w)
      | Inr c \<Rightarrow>
          send_and_stream e c message
            (emit (Conversation_created c)
               (set_state (\<lambda>s. s\<lparr>currentConversationId := Some c\<rparr>)
                  (emit (Create_request message) w))))"

definition sendMessage_try ::
  "env \<Rightarrow> string \<Rightarrow> int option \<Rightarrow> world \<Rightarrow> string option \<times> world" where
  "sendMessage_try e message conversationId w =
     (case userData e of
        No_user \<Rightarrow> (Some ''User not authenticated'', w)
      | Corrupt_user m \<Rightarrow> (Some m, w)
      | Valid_user \<Rightarrow>
          (case conversationId of
             None \<Rightarrow> create_and_send e message w
           | Some c \<Rightarrow>
               if c = 0 then create_and_send e message w
               else send_and_stream e c message w))"

text \<open>The whole operation; the first component is what the returned promise rejects with.\<close>

definition sendMessage :: "env \<Rightarrow> string \<Rightarrow> world \<Rightarrow> string option \<times> world" where
  "sendMessage e message w =
     (case sendMessage_try e message (currentConversationId (store w))
             (set_state (\<lambda>s. s\<lparr>isLoading := True, isStreaming := True\<rparr>) w) of
        (None, w') \<Rightarrow> (None, w')
      | (Some m, w') \<Rightarrow> (Some m, set_state (\<lambda>s. s\<lparr>isLoading := False, isStreaming := False\<rparr>) w'))"

section \<open>The submit handler of the chat component\<close>

text \<open>
  \<^verbatim>\<open>String.prototype.trim\<close> on the code units below 256: tab, line feed, vertical
  tab, form feed, carriage return, space and no-break space are white space.
\<close>

definition is_space :: "char \<Rightarrow> bool" where
  "is_space c = (of_char c \<in> {9, 10, 11, 12, 13, 32, 160 :: nat})"

definition trim :: "string \<Rightarrow> string" where
  "trim s = rev (dropWhile is_space (rev (dropWhile is_space s)))"

text \<open>
  \<^verbatim>\<open>handleSubmit\<close> of the chat component, the only caller of the store's
  \<^verbatim>\<open>sendMessage\<close>. The component is rendered again at every change of the store, so
  the flags it tests are the store's. The result is the new content of the input field
  and the world.
\<close>

definition handleSubmit :: "env \<Rightarrow> string \<Rightarrow> world \<Rightarrow> string \<times> world" where
  "handleSubmit e input w =
     (if trim input = [] \<or> isLoading (store w) \<or> isStreaming (store w) then (input, w)
      else
        (case sendMessage e (trim input) w of
           (None, w') \<Rightarrow> ([], w')
         | (Some m, w') \<Rightarrow> (trim input, w')))"

section \<open>The events of a stream\<close>

text \<open>
  The lines on which the body of the loop does nothing: a line without the
  \<^verbatim>\<open>data: \<close> prefix (line 271; the empty line that \<^verbatim>\<open>split\<close> leaves behind the
  last newline is one), an empty payload (line 273), a payload that \<^verbatim>\<open>JSON.parse\<close>
  rejects (line 299), a type the \<^verbatim>\<open>switch\<close> has no case for, and a chunk whose
  content is missing or empty (line 280).
\<close>

fun ignored :: "sse_line \<Rightarrow> bool" where
  "ignored Not_data = True"
| "ignored Empty_data = True"
| "ignored Bad_json = True"
| "ignored (Json (Assistant_chunk None)) = True"
| "ignored (Json (Assistant_chunk (Some t))) = (t = [])"
| "ignored (Json Assistant_complete) = False"
| "ignored (Json Done) = False"
| "ignored (Json (Error_event m)) = False"
| "ignored (Json Other_type) = True"

text \<open>
  The events a sequence of lines emits: the lines that are not ignored, in their order,
  up to the first \<^verbatim>\<open>done\<close>, behind which no line is looked at (line 291).
\<close>

fun emitted :: "sse_line list \<Rightarrow> sse_line list" where
  "emitted [] = []"
| "emitted (l # ls) =
     (if l = Json Done then []
      else if ignored l then emitted ls
      else l # emitted ls)"

section \<open>Sequences of operations\<close>

text \<open>
  A session is driven by sends, loads and clears, each with the environment it meets
  and each run to its end before the next starts.
\<close>

datatype op = Send env string | Load env int | Clear

fun apply_op :: "op \<Rightarrow> world \<Rightarrow> world" where
  "apply_op (Send e message) w = snd (sendMessage e message w)"
| "apply_op (Load e conversationId) w = snd (loadConversation e conversationId w)"
| "apply_op Clear w = clearChat w"

fun run :: "op list \<Rightarrow> world \<Rightarrow> world" where
  "run [] w = w"
| "run (x # xs) w = run xs (apply_op x w)"

text \<open>The lines of a body, read after read, when no read rejects.\<close>

fun lines_read :: "read_result list \<Rightarrow> sse_line list option" where
  "lines_read [] = Some []"
| "lines_read (Read_rejects m # rs) = None"
| "lines_read (Value ls # rs) = map_option ((@) ls) (lines_read rs)"

text \<open>
  Lines are \<open>quiet\<close> up to the closing \<^verbatim>\<open>done\<close> when they hold neither a chunk nor an
  error. They are \<open>orderly\<close> when, up to the closing \<^verbatim>\<open>done\<close>, they hold no error and
  the lines behind the first \<^verbatim>\<open>assistant_complete\<close> are quiet.
\<close>

fun quiet :: "sse_line list \<Rightarrow> bool" where
  "quiet [] = True"
| "quiet (Json (Assistant_chunk c) # ls) = False"
| "quiet (Json (Error_event m) # ls) = False"
| "quiet (Json Done # ls) = True"
| "quiet (l # ls) = quiet ls"

fun orderly :: "sse_line list \<Rightarrow> bool" where
  "orderly [] = True"
| "orderly (Json (Error_event m) # ls) = False"
| "orderly (Json Assistant_complete # ls) = quiet ls"
| "orderly (Json Done # ls) = True"
| "orderly (l # ls) = orderly ls"

text \<open>
  A send is \<open>smooth\<close> in an environment where nothing throws (a signed-in user, a
  conversation that can be created, a body whose reads all resolve) and the lines of the
  body are orderly. A stream that ends before \<^verbatim>\<open>assistant_complete\<close> stands for a reply
  that is still being streamed.
\<close>

definition smooth :: "env \<Rightarrow> bool" where
  "smooth e =
     (userData e = Valid_user
      \<and> (case createConversation e of Inl m \<Rightarrow> False | Inr c \<Rightarrow> True)
      \<and> (case stream e of
            Body rs \<Rightarrow> (case lines_read rs of None \<Rightarrow> False | Some ls \<Rightarrow> orderly ls)
          | _ \<Rightarrow> False))"

fun calm :: "op \<Rightarrow> bool" where
  "calm (Send e message) = smooth e"
| "calm (Load e conversationId) = True"
| "calm Clear = True"

section \<open>Concrete inputs\<close>

text \<open>
  A freshly created store in an empty world, and a session with a reply in flight whose
  buffer already holds \<open>''A''\<close>.
\<close>

definition fresh :: world where
  "fresh = \<lparr>store = initialState, trace = [], ticks = 0\<rparr>"

definition in_flight :: world where
  "in_flight =
     \<lparr>store =
        \<lparr>messages = [\<lparr>msg_id = 990, role = User, content = ''first'', created_at = ''t0''\<rparr>],
         isLoading = True, isStreaming = True, currentMessage = [],
         streamingMessage = ''A'', currentConversationId = Some 7\<rparr>,
      trace = [Stream_request 7 ''first''], ticks = 1\<rparr>"

text \<open>
  An environment with a signed-in user, in which creating a conversation yields id 7,
  fetching a conversation fails, and the stream does as given.
\<close>

definition signed_in :: "transport \<Rightarrow> env" where
  "signed_in t =
     \<lparr>userData = Valid_user, createConversation = Inr 7,
      getConversation = Inl ''Failed to fetch conversation'', stream = t,
      clock = (\<lambda>n. (1000 + int n, ''t''))\<rparr>"

abbreviation chunk :: "string \<Rightarrow> sse_line" where
  "chunk t \<equiv> Json (Assistant_chunk (Some t))"

abbreviation complete :: sse_line where
  "complete \<equiv> Json Assistant_complete"

section \<open>Properties of the stream loop\<close>

lemma for_lines_append:
  "for_lines oc ok oe (xs @ ys) st =
     (case for_lines oc ok oe xs st of
        (Return, st') \<Rightarrow> (Return, st')
      | (Continue, st') \<Rightarrow> for_lines oc ok oe ys st')"
  by (induction xs arbitrary: st) (auto split: prod.splits flow.splits)

lemma read_loop_Values:
  "read_loop oc ok oe (map Value lss) st = (None, snd (snd (for_lines oc ok oe (concat lss) st)))"
proof (induction lss arbitrary: st)
  case Nil
  then show ?case by (cases st) simp
next
  case (Cons ls lss)
  then show ?case
    by (simp add: for_lines_append split: prod.splits flow.splits)
qed

lemma for_lines_chunks:
  "for_lines onChunk_cb ok oe (map chunk cs) (full, w) =
     (Continue, full @ concat cs,
      set_state (\<lambda>s. s\<lparr>streamingMessage := streamingMessage s @ concat cs\<rparr>) w)"
proof (induction cs arbitrary: full w)
  case Nil
  then show ?case by (simp add: set_state_def)
next
  case (Cons c cs)
  then show ?case by (simp add: set_state_def onChunk_cb_def)
qed

lemma for_lines_emitted:
  "snd (for_lines oc ok oe ls st) = snd (for_lines oc ok oe (emitted ls) st)"
proof (induction ls arbitrary: st)
  case Nil
  then show ?case by simp
next
  case (Cons l ls)
  obtain full w where st: "st = (full, w)"
    by (cases st)
  show ?case
  proof (cases l)
    case (Json ev)
    show ?thesis
    proof (cases ev)
      case (Assistant_chunk c)
      with Json st Cons.IH show ?thesis
        by (cases c) simp_all
    qed (use Json st Cons.IH in \<open>auto split: option.splits\<close>)
  qed (use st Cons.IH in simp_all)
qed

section \<open>A send whose stream is read to its end\<close>

lemma send_and_stream_Values:
  assumes "stream e = Body (map Value lss)"
  shows "send_and_stream e c message w =
     (None,
      snd (snd (for_lines onChunk_cb (Some (onComplete_cb e)) (Some onError_cb) (concat lss)
        ([], emit (Stream_request c message)
               (set_state (\<lambda>s. s\<lparr>streamingMessage := []\<rparr>)
                  (set_state (\<lambda>s. s\<lparr>messages := messages s @ [userMessage e (ticks w) message]\<rparr>)
                     (tick w)))))))"
  using assms
  by (simp add: send_and_stream_def streamChat_def open_and_read_def read_loop_Values)

lemma sendMessage_Values:
  assumes "userData e = Valid_user" and "createConversation e = Inr c"
    and "stream e = Body (map Value lss)"
  shows "\<exists>w1. sendMessage e message w =
           (None, snd (snd (for_lines onChunk_cb (Some (onComplete_cb e)) (Some onError_cb)
                              (concat lss) ([], w1))))
         \<and> messages (store w1) = messages (store w) @ [userMessage e (ticks w) message]
         \<and> streamingMessage (store w1) = []
         \<and> isLoading (store w1) \<and> isStreaming (store w1)
         \<and> ticks w1 = Suc (ticks w)"
proof (cases "currentConversationId (store w) = None \<or> currentConversationId (store w) = Some 0")
  case True
  then show ?thesis
    using assms
    by (auto simp: sendMessage_def sendMessage_try_def create_and_send_def
        send_and_stream_Values set_state_def emit_def tick_def)
next
  case False
  then obtain k where "currentConversationId (store w) = Some k" "k \<noteq> 0"
    by (cases "currentConversationId (store w)") auto
  then show ?thesis
    using assms
    by (auto simp: sendMessage_def sendMessage_try_def
        send_and_stream_Values set_state_def emit_def tick_def)
qed

section \<open>The buffer over sequences of operations\<close>

lemma lines_read_Some:
  "lines_read rs = Some ls \<Longrightarrow> \<exists>lss. rs = map Value lss \<and> concat lss = ls"
proof (induction rs arbitrary: ls)
  case Nil
  then show ?case by simp
next
  case (Cons r rs)
  show ?case
  proof (cases r)
    case (Value l)
    with Cons.prems obtain ls' where ls': "lines_read rs = Some ls'" "ls = l @ ls'"
      by auto
    from Cons.IH [OF ls'(1)] obtain lss where "rs = map Value lss" "concat lss = ls'"
      by blast
    with Value ls'(2) have "r # rs = map Value (l # lss) \<and> concat (l # lss) = ls"
      by simp
    then show ?thesis by (intro exI [where x = "l # lss"])
  next
    case (Read_rejects m)
    with Cons.prems show ?thesis by simp
  qed
qed

lemma onComplete_cb_empties:
  "streamingMessage (store (snd (onComplete_cb e full w))) = []"
  by (simp add: onComplete_cb_def set_state_def tick_def)

lemma for_lines_quiet:
  "quiet ls \<Longrightarrow> streamingMessage (store w) = [] \<Longrightarrow>
   streamingMessage (store (snd (snd
     (for_lines onChunk_cb (Some (onComplete_cb e)) (Some onError_cb) ls (full, w))))) = []"
proof (induction ls arbitrary: full w)
  case Nil
  then show ?case by simp
next
  case (Cons l ls)
  show ?case
  proof (cases l)
    case (Json ev)
    with Cons show ?thesis
      by (cases ev) (simp_all add: onComplete_cb_empties)
  qed (use Cons in simp_all)
qed

lemma for_lines_orderly:
  "orderly ls \<Longrightarrow> isStreaming (store w) \<Longrightarrow>
   streamingMessage (store (snd (snd
     (for_lines onChunk_cb (Some (onComplete_cb e)) (Some onError_cb) ls (full, w))))) = []
   \<or> isStreaming (store (snd (snd
     (for_lines onChunk_cb (Some (onComplete_cb e)) (Some onError_cb) ls (full, w)))))"
proof (induction ls arbitrary: full w)
  case Nil
  then show ?case by simp
next
  case (Cons l ls)
  show ?case
  proof (cases l)
    case (Json ev)
    show ?thesis
    proof (cases ev)
      case (Assistant_chunk c)
      with Json Cons show ?thesis
        by (cases c) (simp_all add: onChunk_cb_def set_state_def)
    next
      case Assistant_complete
      with Json Cons.prems show ?thesis
        by (simp add: for_lines_quiet onComplete_cb_empties)
    qed (use Json Cons in simp_all)
  qed (use Cons in simp_all)
qed

lemma sendMessage_smooth:
  assumes "smooth e"
  shows "streamingMessage (store (snd (sendMessage e message w))) = []
       \<or> isStreaming (store (snd (sendMessage e message w)))"
proof -
  from assms obtain c rs ls where e:
    "userData e = Valid_user" "createConversation e = Inr c"
    "stream e = Body rs" "lines_read rs = Some ls" "orderly ls"
    by (auto simp: smooth_def split: sum.splits transport.splits option.splits)
  from lines_read_Some [OF e(4)] obtain lss where lss: "rs = map Value lss" "concat lss = ls"
    by blast
  from e(3) lss(1) have "stream e = Body (map Value lss)"
    by simp
  from sendMessage_Values [OF e(1,2) this, of message w]
  obtain w1 where w1:
    "sendMessage e message w =
       (None, snd (snd (for_lines onChunk_cb (Some (onComplete_cb e)) (Some onError_cb)
                          (concat lss) ([], w1))))"
    "isStreaming (store w1)"
    by blast
  from for_lines_orderly [of ls w1 e "[]"] e(5) w1 lss(2) show ?thesis
    by simp
qed

lemma loadConversation_buffer:
  "streamingMessage (store (snd (loadConversation e conversationId w))) = streamingMessage (store w)
   \<and> isStreaming (store (snd (loadConversation e conversationId w))) = isStreaming (store w)"
  by (simp add: loadConversation_def loadConversation_try_def set_state_def emit_def
      split: sum.splits)

lemma apply_op_calm:
  assumes "calm x" and "streamingMessage (store w) = [] \<or> isStreaming (store w)"
  shows "streamingMessage (store (apply_op x w)) = [] \<or> isStreaming (store (apply_op x w))"
proof (cases x)
  case (Send e message)
  with assms(1) show ?thesis by (simp add: sendMessage_smooth)
next
  case (Load e conversationId)
  with assms(2) show ?thesis by (simp add: loadConversation_buffer)
next
  case Clear
  then show ?thesis by (simp add: clearChat_def set_state_def)
qed

lemma run_calm:
  "list_all calm ops \<Longrightarrow> streamingMessage (store w) = [] \<or> isStreaming (store w) \<Longrightarrow>
   streamingMessage (store (run ops w)) = [] \<or> isStreaming (store (run ops w))"
proof (induction ops arbitrary: w)
  case Nil
  then show ?case by simp
next
  case (Cons x xs)
  from Cons.prems have "calm x" "list_all calm xs"
    by simp_all
  from Cons.IH [OF this(2) apply_op_calm [OF this(1) Cons.prems(2)]] show ?case
    by simp
qed

section \<open>Error paths\<close>

text \<open>
  A read that rejects after a chunk: the failure reaches the caller and the flags are
  lowered, by \<^verbatim>\<open>onError\<close> and by the \<^verbatim>\<open>catch\<close> of \<^verbatim>\<open>sendMessage\<close>, but
  neither empties the buffer.
\<close>

lemma rejected_read_keeps_buffer:
  "sendMessage (signed_in (Body [Value [chunk ''A''], Read_rejects ''lost''])) ''hi'' fresh =
     (Some ''lost'',
      \<lparr>store =
         \<lparr>messages = [\<lparr>msg_id = 1000, role = User, content = ''hi'', created_at = ''t''\<rparr>],
          isLoading = False, isStreaming = False, currentMessage = [],
          streamingMessage = ''A'', currentConversationId = Some 7\<rparr>,
       trace = [Create_request ''hi'', Conversation_created 7, Stream_request 7 ''hi''],
       ticks = 1\<rparr>)"
  by (simp add: sendMessage_def sendMessage_try_def create_and_send_def send_and_stream_def
      streamChat_def open_and_read_def onChunk_cb_def onError_cb_def userMessage_def
      set_state_def emit_def tick_def signed_in_def fresh_def initialState_def)

section \<open>The claims\<close>

text \<open>
  C1. On \<open>chunk ''A''\<close> followed by \<open>error ''boom''\<close> the store's \<^verbatim>\<open>onError\<close> lowers
  both flags and throws, but the throw (like the one of api.ts line 296) is caught by the
  \<^verbatim>\<open>catch\<close> of line 299: the send ends without a failure, with no assistant message,
  idle, and with \<open>''A''\<close> still in the buffer.
\<close>

theorem chunk_then_error_is_swallowed:
  "sendMessage (signed_in (Body [Value [chunk ''A'', Json (Error_event ''boom'')]])) ''hi'' fresh =
     (None,
      \<lparr>store =
         \<lparr>messages = [\<lparr>msg_id = 1000, role = User, content = ''hi'', created_at = ''t''\<rparr>],
          isLoading = False, isStreaming = False, currentMessage = [],
          streamingMessage = ''A'', currentConversationId = Some 7\<rparr>,
       trace = [Create_request ''hi'', Conversation_created 7, Stream_request 7 ''hi''],
       ticks = 1\<rparr>)"
  by (simp add: sendMessage_def sendMessage_try_def create_and_send_def send_and_stream_def
      streamChat_def open_and_read_def onChunk_cb_def onError_cb_def userMessage_def
      set_state_def emit_def tick_def signed_in_def fresh_def initialState_def)

text \<open>
  C2. On a stream that holds only \<^verbatim>\<open>done\<close>, \<open>streamChat\<close> returns without calling a
  callback, and nothing after it lowers the flags that line 105 raised: the send ends
  without a failure and without an assistant message, but both busy flags stay raised.
\<close>

theorem done_only_leaves_flags_raised:
  "sendMessage (signed_in (Body [Value [Json Done]])) ''hi'' fresh =
     (None,
      \<lparr>store =
         \<lparr>messages = [\<lparr>msg_id = 1000, role = User, content = ''hi'', created_at = ''t''\<rparr>],
          isLoading = True, isStreaming = True, currentMessage = [],
          streamingMessage = [], currentConversationId = Some 7\<rparr>,
       trace = [Create_request ''hi'', Conversation_created 7, Stream_request 7 ''hi''],
       ticks = 1\<rparr>)"
  by (simp add: sendMessage_def sendMessage_try_def create_and_send_def send_and_stream_def
      streamChat_def open_and_read_def userMessage_def
      set_state_def emit_def tick_def signed_in_def fresh_def initialState_def)

text \<open>
  C3, as amended. The text is tested by \<^verbatim>\<open>handleSubmit\<close>, the one caller of the
  store's \<^verbatim>\<open>sendMessage\<close>: when the input trims to the empty string it returns
  without calling \<^verbatim>\<open>sendMessage\<close>, so no request is issued and nothing in the
  store changes.
\<close>

theorem blank_submit_is_ignored:
  "trim input = [] \<Longrightarrow> handleSubmit e input w = (input, w)"
  by (simp add: handleSubmit_def)

theorem blank_submit_is_ignored_witness:
  "trim ''   '' = [] \<and> handleSubmit (signed_in (Body [])) ''   '' fresh = (''   '', fresh)"
proof -
  have t: "trim ''   '' = []"
    by (simp add: trim_def is_space_def)
  from t blank_submit_is_ignored [OF t, of "signed_in (Body [])" fresh]
  show ?thesis by simp
qed

text \<open>
  C3, as stated, fails for the store's \<^verbatim>\<open>sendMessage\<close>, which does not look at the
  text: sent \<open>''   ''\<close> on a fresh store, it raises the flags, creates a conversation,
  appends the blank user message and requests the stream.
\<close>

theorem sendMessage_accepts_blank_text:
  "trim ''   '' = []
   \<and> trace (snd (sendMessage (signed_in (Body [])) ''   '' fresh)) =
       [Create_request ''   '', Conversation_created 7, Stream_request 7 ''   '']
   \<and> store (snd (sendMessage (signed_in (Body [])) ''   '' fresh)) =
       \<lparr>messages = [\<lparr>msg_id = 1000, role = User, content = ''   '', created_at = ''t''\<rparr>],
        isLoading = True, isStreaming = True, currentMessage = [],
        streamingMessage = [], currentConversationId = Some 7\<rparr>"
  by (simp add: trim_def is_space_def sendMessage_def sendMessage_try_def create_and_send_def
      send_and_stream_def streamChat_def open_and_read_def userMessage_def
      set_state_def emit_def tick_def signed_in_def fresh_def initialState_def)

text \<open>
  C4, as amended. The flags are tested by \<^verbatim>\<open>handleSubmit\<close>, the one caller of the
  store's \<^verbatim>\<open>sendMessage\<close>: while the session is not idle it returns without calling
  \<^verbatim>\<open>sendMessage\<close>, so the buffer in flight is not touched.
\<close>

theorem busy_submit_is_ignored:
  "\<not> idle (store w) \<Longrightarrow> handleSubmit e input w = (input, w)"
  by (auto simp: handleSubmit_def idle_def)

theorem busy_submit_is_ignored_witness:
  "\<not> idle (store in_flight)
   \<and> handleSubmit (signed_in (Body [Value [chunk ''B'']])) ''again'' in_flight = (''again'', in_flight)"
proof -
  have b: "\<not> idle (store in_flight)"
    by (simp add: idle_def in_flight_def)
  from b busy_submit_is_ignored [OF b, of "signed_in (Body [Value [chunk ''B'']])" "''again''"]
  show ?thesis by simp
qed

text \<open>
  C4, as stated, fails for the store's \<^verbatim>\<open>sendMessage\<close>, which does not look at the
  flags: called while a reply is in flight with \<open>''A''\<close> in the buffer, it is carried
  out, empties the buffer and folds its own chunk \<open>''B''\<close> into it; a later chunk
  \<open>''C''\<close> of the first stream (whose own running message is \<open>''A''\<close>) lands behind it.
\<close>

theorem sendMessage_while_busy_takes_over_buffer:
  "\<not> idle (store in_flight)
   \<and> streamingMessage (store in_flight) = ''A''
   \<and> fst (sendMessage (signed_in (Body [Value [chunk ''B'']])) ''again'' in_flight) = None
   \<and> streamingMessage
       (store (snd (sendMessage (signed_in (Body [Value [chunk ''B'']])) ''again'' in_flight))) = ''B''
   \<and> streamingMessage
       (store (snd (snd (for_lines onChunk_cb
          (Some (onComplete_cb (signed_in (Body [Value [chunk ''A''], Value [chunk ''C'']]))))
          (Some onError_cb) [chunk ''C'']
          (''A'', snd (sendMessage (signed_in (Body [Value [chunk ''B'']])) ''again'' in_flight)))))) =
       ''BC''"
  by (simp add: idle_def in_flight_def sendMessage_def sendMessage_try_def send_and_stream_def
      streamChat_def open_and_read_def onChunk_cb_def userMessage_def
      set_state_def emit_def tick_def signed_in_def)

text \<open>
  C5, as amended. \<^verbatim>\<open>clearChat\<close> empties the transcript, the buffer and the draft and
  forgets the conversation id; it is a single \<^verbatim>\<open>set\<close> and cannot fail. It does not
  touch the two busy flags, so the session is idle afterwards exactly when it was idle
  before.
\<close>

theorem clearChat_result:
  "store (clearChat w) =
     \<lparr>messages = [], isLoading = isLoading (store w), isStreaming = isStreaming (store w),
      currentMessage = [], streamingMessage = [], currentConversationId = None\<rparr>
   \<and> idle (store (clearChat w)) = idle (store w)"
  by (simp add: clearChat_def set_state_def idle_def)

text \<open>
  C5, as stated, fails: cleared while a reply is in flight, the session is still busy.
\<close>

theorem clearChat_keeps_busy_flags:
  "\<not> idle (store (clearChat in_flight))"
  by (simp add: idle_def clearChat_def set_state_def in_flight_def)

text \<open>
  C6, as amended. From the initial store, after any sequence of clears, loads (whatever
  their outcome) and smooth sends, the buffer is non-empty only while \<open>isStreaming\<close> is
  raised. \<^verbatim>\<open>clearChat\<close> and every \<^verbatim>\<open>onComplete\<close> empty the buffer, and
  \<^verbatim>\<open>loadConversation\<close> leaves it as it is.
\<close>

theorem buffer_only_while_streaming:
  assumes "list_all calm ops"
  shows "(streamingMessage (store (run ops fresh)) \<noteq> [] \<longrightarrow> isStreaming (store (run ops fresh)))
       \<and> streamingMessage (store (clearChat w)) = []
       \<and> streamingMessage (store (snd (onComplete_cb e fullMessage w))) = []
       \<and> streamingMessage (store (snd (loadConversation e conversationId w))) =
           streamingMessage (store w)"
proof -
  have "streamingMessage (store fresh) = [] \<or> isStreaming (store fresh)"
    by (simp add: fresh_def initialState_def)
  from run_calm [OF assms this] show ?thesis
    by (auto simp: clearChat_def set_state_def onComplete_cb_empties loadConversation_buffer)
qed

theorem buffer_only_while_streaming_witness:
  "list_all calm
     [Send (signed_in (Body [Value [chunk ''A''], Value [complete, Json Done]])) ''hi'',
      Load (signed_in No_body) 7,
      Clear,
      Send (signed_in (Body [Value [chunk ''B''], Value [chunk ''C'']])) ''more'']
   \<and> streamingMessage (store (run
       [Send (signed_in (Body [Value [chunk ''A''], Value [complete, Json Done]])) ''hi'',
        Load (signed_in No_body) 7,
        Clear,
        Send (signed_in (Body [Value [chunk ''B''], Value [chunk ''C'']])) ''more''] fresh)) = ''BC''
   \<and> isStreaming (store (run
       [Send (signed_in (Body [Value [chunk ''A''], Value [complete, Json Done]])) ''hi'',
        Load (signed_in No_body) 7,
        Clear,
        Send (signed_in (Body [Value [chunk ''B''], Value [chunk ''C'']])) ''more''] fresh))"
proof -
  let ?ops = "[Send (signed_in (Body [Value [chunk ''A''], Value [complete, Json Done]])) ''hi'',
      Load (signed_in No_body) 7,
      Clear,
      Send (signed_in (Body [Value [chunk ''B''], Value [chunk ''C'']])) ''more'']"
  have c: "list_all calm ?ops"
    by (simp add: smooth_def signed_in_def)
  have b: "streamingMessage (store (run ?ops fresh)) = ''BC''"
    by (simp add: sendMessage_def sendMessage_try_def create_and_send_def send_and_stream_def
        streamChat_def open_and_read_def onChunk_cb_def onComplete_cb_def userMessage_def
        loadConversation_def loadConversation_try_def clearChat_def
        set_state_def emit_def tick_def signed_in_def fresh_def initialState_def)
  from buffer_only_while_streaming [OF c] b c show ?thesis
    by simp
qed

text \<open>
  C6, as stated, fails: a chunk that follows an \<^verbatim>\<open>assistant_complete\<close> is folded into
  the buffer when the flags are already lowered, so the buffer is non-empty in an idle
  session.
\<close>

theorem buffer_nonempty_after_complete:
  "idle (store (snd (sendMessage
      (signed_in (Body [Value [chunk ''A'', complete, chunk ''B'']])) ''hi'' fresh)))
   \<and> streamingMessage (store (snd (sendMessage
      (signed_in (Body [Value [chunk ''A'', complete, chunk ''B'']])) ''hi'' fresh))) = ''B''"
  by (simp add: idle_def sendMessage_def sendMessage_try_def create_and_send_def send_and_stream_def
      streamChat_def open_and_read_def onChunk_cb_def onComplete_cb_def userMessage_def
      set_state_def emit_def tick_def signed_in_def fresh_def initialState_def)

text \<open>
  C7. Whatever the partition of the stream into reads and whatever ignored lines lie
  between the events, when the events emitted during a send are chunks, the buffer at
  the end of the send is the concatenation of the chunk contents in the order of
  emission; and when an \<^verbatim>\<open>assistant_complete\<close> follows them, the accumulated message
  handed to \<^verbatim>\<open>onComplete\<close>, which becomes the content of the appended assistant
  message, is that same concatenation.
\<close>

theorem chunks_fold_in_emission_order:
  assumes "userData e = Valid_user" and "createConversation e = Inr c"
    and "stream e = Body (map Value lss)"
  shows "(emitted (concat lss) = map chunk cs \<longrightarrow>
            streamingMessage (store (snd (sendMessage e message w))) = concat cs)
       \<and> (emitted (concat lss) = map chunk cs @ [complete] \<longrightarrow>
            messages (store (snd (sendMessage e message w))) =
              messages (store w) @
                [userMessage e (ticks w) message,
                 finalAssistantMessage e (Suc (ticks w)) (concat cs)])"
proof -
  from sendMessage_Values [OF assms(1-3), of message w]
  obtain w1 where w1:
    "sendMessage e message w =
       (None, snd (snd (for_lines onChunk_cb (Some (onComplete_cb e)) (Some onError_cb)
                          (concat lss) ([], w1))))"
    "messages (store w1) = messages (store w) @ [userMessage e (ticks w) message]"
    "streamingMessage (store w1) = []"
    "ticks w1 = Suc (ticks w)"
    by blast
  from w1(1)
    for_lines_emitted [of onChunk_cb "Some (onComplete_cb e)" "Some onError_cb" "concat lss" "([], w1)"]
  have r: "snd (sendMessage e message w) =
      snd (snd (for_lines onChunk_cb (Some (onComplete_cb e)) (Some onError_cb)
                  (emitted (concat lss)) ([], w1)))"
    by simp
  show ?thesis
    using r w1(2-4)
    by (simp add: for_lines_append for_lines_chunks onComplete_cb_def set_state_def tick_def)
qed

theorem chunks_fold_in_emission_order_witness:
  "streamingMessage
     (store (snd (sendMessage
        (signed_in (Body
           [Value [chunk ''He'', Not_data],
            Value [Bad_json, chunk ''l'', Json (Assistant_chunk None), chunk [], Empty_data,
                   chunk ''lo'', Json Other_type, Not_data]]))
        ''hi'' fresh))) = ''Hello''
   \<and> messages
       (store (snd (sendMessage
          (signed_in (Body
             [Value [chunk ''He'', Not_data],
              Value [Bad_json, chunk ''l'', Json (Assistant_chunk None), chunk [], Empty_data,
                     chunk ''lo'', Json Other_type, Not_data],
              Value [complete, Not_data, Json Done, Not_data]]))
          ''hi'' fresh))) =
       [\<lparr>msg_id = 1000, role = User, content = ''hi'', created_at = ''t''\<rparr>,
        \<lparr>msg_id = 1002, role = Assistant, content = ''Hello'', created_at = ''t''\<rparr>]"
proof -
  let ?l1 = "[[chunk ''He'', Not_data],
              [Bad_json, chunk ''l'', Json (Assistant_chunk None), chunk [], Empty_data,
               chunk ''lo'', Json Other_type, Not_data]]"
  let ?l2 = "[[chunk ''He'', Not_data],
              [Bad_json, chunk ''l'', Json (Assistant_chunk None), chunk [], Empty_data,
               chunk ''lo'', Json Other_type, Not_data],
              [complete, Not_data, Json Done, Not_data]]"
  let ?e1 = "signed_in (Body (map Value ?l1))"
  let ?e2 = "signed_in (Body (map Value ?l2))"
  have a: "userData ?e1 = Valid_user" "createConversation ?e1 = Inr 7"
    "stream ?e1 = Body (map Value ?l1)"
    by (simp_all add: signed_in_def)
  have b: "userData ?e2 = Valid_user" "createConversation ?e2 = Inr 7"
    "stream ?e2 = Body (map Value ?l2)"
    by (simp_all add: signed_in_def)
  have ea: "emitted (concat ?l1) = map chunk [''He'', ''l'', ''lo'']"
    by simp
  have eb: "emitted (concat ?l2) = map chunk [''He'', ''l'', ''lo''] @ [complete]"
    by simp
  from chunks_fold_in_emission_order [OF a, of "[''He'', ''l'', ''lo'']" "''hi''" fresh] ea
  have "streamingMessage (store (snd (sendMessage ?e1 ''hi'' fresh))) = ''Hello''"
    by simp
  moreover
  from chunks_fold_in_emission_order [OF b, of "[''He'', ''l'', ''lo'']" "''hi''" fresh] eb
  have "messages (store (snd (sendMessage ?e2 ''hi'' fresh))) =
      [\<lparr>msg_id = 1000, role = User, content = ''hi'', created_at = ''t''\<rparr>,
       \<lparr>msg_id = 1002, role = Assistant, content = ''Hello'', created_at = ''t''\<rparr>]"
    by (simp add: fresh_def initialState_def userMessage_def finalAssistantMessage_def
        signed_in_def)
  ultimately show ?thesis
    by simp
qed

text \<open>
  C8. A stream whose emitted events are \<open>chunk ''A''\<close>, \<open>chunk ''B''\<close>, \<open>complete\<close>
  (however it is cut into reads, whatever ignored lines lie between them, and whether or
  not the closing \<^verbatim>\<open>done\<close> follows) appends, after the user's message, exactly one
  assistant message, with content \<open>''AB''\<close>, and leaves the buffer empty.
\<close>

theorem chunk_A_chunk_B_complete:
  assumes "userData e = Valid_user" and "createConversation e = Inr c"
    and "stream e = Body (map Value lss)"
    and "emitted (concat lss) = [chunk ''A'', chunk ''B'', complete]"
  shows "messages (store (snd (sendMessage e message w))) =
           messages (store w) @
             [userMessage e (ticks w) message, finalAssistantMessage e (Suc (ticks w)) ''AB'']
       \<and> streamingMessage (store (snd (sendMessage e message w))) = []"
proof -
  from sendMessage_Values [OF assms(1-3), of message w]
  obtain w1 where w1:
    "sendMessage e message w =
       (None, snd (snd (for_lines onChunk_cb (Some (onComplete_cb e)) (Some onError_cb)
                          (concat lss) ([], w1))))"
    "messages (store w1) = messages (store w) @ [userMessage e (ticks w) message]"
    "streamingMessage (store w1) = []"
    "ticks w1 = Suc (ticks w)"
    by blast
  from w1(1)
    for_lines_emitted [of onChunk_cb "Some (onComplete_cb e)" "Some onError_cb" "concat lss" "([], w1)"]
  have r: "snd (sendMessage e message w) =
      snd (snd (for_lines onChunk_cb (Some (onComplete_cb e)) (Some onError_cb)
                  (emitted (concat lss)) ([], w1)))"
    by simp
  show ?thesis
    using r w1(2-4) assms(4)
    by (simp add: onChunk_cb_def onComplete_cb_def set_state_def tick_def)
qed

theorem chunk_A_chunk_B_complete_witness:
  "messages (store (snd (sendMessage
      (signed_in (Body
         [Value [chunk ''A'', Not_data],
          Value [Bad_json],
          Value [Empty_data, chunk ''B'', Json Other_type, complete, Json Done, Not_data]]))
      ''hi'' fresh))) =
     [\<lparr>msg_id = 1000, role = User, content = ''hi'', created_at = ''t''\<rparr>,
      \<lparr>msg_id = 1002, role = Assistant, content = ''AB'', created_at = ''t''\<rparr>]
   \<and> streamingMessage (store (snd (sendMessage
      (signed_in (Body
         [Value [chunk ''A'', Not_data],
          Value [Bad_json],
          Value [Empty_data, chunk ''B'', Json Other_type, complete, Json Done, Not_data]]))
      ''hi'' fresh))) = []"
proof -
  let ?lss = "[[chunk ''A'', Not_data], [Bad_json],
               [Empty_data, chunk ''B'', Json Other_type, complete, Json Done, Not_data]]"
  let ?e = "signed_in (Body (map Value ?lss))"
  have a: "userData ?e = Valid_user" "createConversation ?e = Inr 7"
    "stream ?e = Body (map Value ?lss)"
    by (simp_all add: signed_in_def)
  have b: "emitted (concat ?lss) = [chunk ''A'', chunk ''B'', complete]"
    by simp
  from chunk_A_chunk_B_complete [OF a b, of "''hi''" fresh]
  show ?thesis
    by (simp add: fresh_def initialState_def userMessage_def finalAssistantMessage_def signed_in_def)
qed

text \<open>
  C9, as amended. When the stored user is missing or the fetch fails,
  \<^verbatim>\<open>loadConversation\<close> resolves without a failure, leaves the transcript, the
  conversation id and the buffer as they were and lowers \<open>isLoading\<close>. It never touches
  \<open>isStreaming\<close>: the session is idle afterwards exactly when no reply was streaming.
\<close>

theorem loadConversation_soft_fail:
  assumes "userData e = No_user \<or> getConversation e = Inl m"
  shows "fst (loadConversation e conversationId w) = None
       \<and> messages (store (snd (loadConversation e conversationId w))) = messages (store w)
       \<and> currentConversationId (store (snd (loadConversation e conversationId w))) =
           currentConversationId (store w)
       \<and> streamingMessage (store (snd (loadConversation e conversationId w))) =
           streamingMessage (store w)
       \<and> isLoading (store (snd (loadConversation e conversationId w))) = False
       \<and> isStreaming (store (snd (loadConversation e conversationId w))) = isStreaming (store w)
       \<and> idle (store (snd (loadConversation e conversationId w))) = (\<not> isStreaming (store w))"
  using assms
  by (auto simp: loadConversation_def loadConversation_try_def set_state_def emit_def idle_def)

theorem loadConversation_soft_fail_witness:
  "getConversation (signed_in No_body) = Inl ''Failed to fetch conversation''
   \<and> loadConversation (signed_in No_body) 7 fresh = (None, fresh\<lparr>trace := [Get_request 7]\<rparr>)
   \<and> idle (store (snd (loadConversation (signed_in No_body) 7 fresh)))"
proof -
  have g: "userData (signed_in No_body) = No_user
         \<or> getConversation (signed_in No_body) = Inl ''Failed to fetch conversation''"
    by (simp add: signed_in_def)
  have l: "loadConversation (signed_in No_body) 7 fresh = (None, fresh\<lparr>trace := [Get_request 7]\<rparr>)"
    by (simp add: loadConversation_def loadConversation_try_def set_state_def emit_def
        signed_in_def fresh_def initialState_def)
  from loadConversation_soft_fail [OF g, of 7 fresh] l
  show ?thesis
    by (simp add: signed_in_def fresh_def initialState_def)
qed

text \<open>
  C9, as stated, fails: a load that fails while a reply is in flight leaves the session
  streaming, not idle.
\<close>

theorem loadConversation_failure_keeps_streaming:
  "getConversation (signed_in No_body) = Inl ''Failed to fetch conversation''
   \<and> fst (loadConversation (signed_in No_body) 7 in_flight) = None
   \<and> isStreaming (store (snd (loadConversation (signed_in No_body) 7 in_flight)))
   \<and> \<not> idle (store (snd (loadConversation (signed_in No_body) 7 in_flight)))"
  by (simp add: idle_def loadConversation_def loadConversation_try_def set_state_def emit_def
      signed_in_def in_flight_def)

text \<open>
  C10. The loop does not stop at \<^verbatim>\<open>assistant_complete\<close>. Chunks emitted after it
  are folded into the buffer (emptied by the completion) and into the running full
  message (never emptied); a second \<^verbatim>\<open>assistant_complete\<close> appends a second assistant
  message, whose content is the concatenation of all chunk contents since the start of
  the stream. This holds however the stream is cut into reads and whatever ignored lines
  lie between the events.
\<close>

theorem events_after_complete_are_processed:
  assumes "userData e = Valid_user" and "createConversation e = Inr c"
    and "stream e = Body (map Value lss)"
  shows "(emitted (concat lss) = map chunk cs1 @ [complete] @ map chunk cs2 \<longrightarrow>
            streamingMessage (store (snd (sendMessage e message w))) = concat cs2
          \<and> messages (store (snd (sendMessage e message w))) =
              messages (store w) @
                [\<lparr>msg_id = fst (clock e (ticks w)), role = User, content = message,
                  created_at = snd (clock e (ticks w))\<rparr>,
                 \<lparr>msg_id = fst (clock e (Suc (ticks w))) + 1, role = Assistant,
                  content = concat cs1, created_at = snd (clock e (Suc (ticks w)))\<rparr>])
       \<and> (emitted (concat lss) = map chunk cs1 @ [complete] @ map chunk cs2 @ [complete] \<longrightarrow>
            streamingMessage (store (snd (sendMessage e message w))) = []
          \<and> messages (store (snd (sendMessage e message w))) =
              messages (store w) @
                [\<lparr>msg_id = fst (clock e (ticks w)), role = User, content = message,
                  created_at = snd (clock e (ticks w))\<rparr>,
                 \<lparr>msg_id = fst (clock e (Suc (ticks w))) + 1, role = Assistant,
                  content = concat cs1, created_at = snd (clock e (Suc (ticks w)))\<rparr>,
                 \<lparr>msg_id = fst (clock e (Suc (Suc (ticks w)))) + 1, role = Assistant,
                  content = concat cs1 @ concat cs2,
                  created_at = snd (clock e (Suc (Suc (ticks w))))\<rparr>])"
proof -
  from sendMessage_Values [OF assms(1-3), of message w]
  obtain w1 where w1:
    "sendMessage e message w =
       (None, snd (snd (for_lines onChunk_cb (Some (onComplete_cb e)) (Some onError_cb)
                          (concat lss) ([], w1))))"
    "messages (store w1) = messages (store w) @ [userMessage e (ticks w) message]"
    "streamingMessage (store w1) = []"
    "ticks w1 = Suc (ticks w)"
    by blast
  from w1(1)
    for_lines_emitted [of onChunk_cb "Some (onComplete_cb e)" "Some onError_cb" "concat lss" "([], w1)"]
  have r: "snd (sendMessage e message w) =
      snd (snd (for_lines onChunk_cb (Some (onComplete_cb e)) (Some onError_cb)
                  (emitted (concat lss)) ([], w1)))"
    by simp
  show ?thesis
    using r w1(2-4)
    by (simp add: for_lines_append for_lines_chunks onComplete_cb_def set_state_def tick_def
        userMessage_def finalAssistantMessage_def)
qed

theorem events_after_complete_are_processed_witness:
  "streamingMessage (store (snd (sendMessage
      (signed_in (Body
         [Value [chunk ''A'', complete, Not_data],
          Value [Empty_data, chunk ''B'', Not_data]]))
      ''hi'' fresh))) = ''B''
   \<and> messages (store (snd (sendMessage
      (signed_in (Body
         [Value [chunk ''A'', complete, Not_data],
          Value [Empty_data, chunk ''B'', Not_data]]))
      ''hi'' fresh))) =
       [\<lparr>msg_id = 1000, role = User, content = ''hi'', created_at = ''t''\<rparr>,
        \<lparr>msg_id = 1002, role = Assistant, content = ''A'', created_at = ''t''\<rparr>]
   \<and> messages (store (snd (sendMessage
      (signed_in (Body
         [Value [chunk ''A'', complete, Not_data],
          Value [Empty_data, chunk ''B'', Not_data],
          Value [Bad_json, Json Other_type, complete, Json Done, Not_data]]))
      ''hi'' fresh))) =
       [\<lparr>msg_id = 1000, role = User, content = ''hi'', created_at = ''t''\<rparr>,
        \<lparr>msg_id = 1002, role = Assistant, content = ''A'', created_at = ''t''\<rparr>,
        \<lparr>msg_id = 1003, role = Assistant, content = ''AB'', created_at = ''t''\<rparr>]"
proof -
  let ?l1 = "[[chunk ''A'', complete, Not_data], [Empty_data, chunk ''B'', Not_data]]"
  let ?l2 = "[[chunk ''A'', complete, Not_data], [Empty_data, chunk ''B'', Not_data],
              [Bad_json, Json Other_type, complete, Json Done, Not_data]]"
  let ?e1 = "signed_in (Body (map Value ?l1))"
  let ?e2 = "signed_in (Body (map Value ?l2))"
  have a: "userData ?e1 = Valid_user" "createConversation ?e1 = Inr 7"
    "stream ?e1 = Body (map Value ?l1)"
    by (simp_all add: signed_in_def)
  have b: "userData ?e2 = Valid_user" "createConversation ?e2 = Inr 7"
    "stream ?e2 = Body (map Value ?l2)"
    by (simp_all add: signed_in_def)
  have ea: "emitted (concat ?l1) = map chunk [''A''] @ [complete] @ map chunk [''B'']"
    by simp
  have eb: "emitted (concat ?l2) = map chunk [''A''] @ [complete] @ map chunk [''B''] @ [complete]"
    by simp
  from events_after_complete_are_processed [OF a, of "[''A'']" "[''B'']" "''hi''" fresh] ea
  have "streamingMessage (store (snd (sendMessage ?e1 ''hi'' fresh))) = ''B''
      \<and> messages (store (snd (sendMessage ?e1 ''hi'' fresh))) =
          [\<lparr>msg_id = 1000, role = User, content = ''hi'', created_at = ''t''\<rparr>,
           \<lparr>msg_id = 1002, role = Assistant, content = ''A'', created_at = ''t''\<rparr>]"
    by (simp add: fresh_def initialState_def signed_in_def)
  moreover
  from events_after_complete_are_processed [OF b, of "[''A'']" "[''B'']" "''hi''" fresh] eb
  have "messages (store (snd (sendMessage ?e2 ''hi'' fresh))) =
          [\<lparr>msg_id = 1000, role = User, content = ''hi'', created_at = ''t''\<rparr>,
           \<lparr>msg_id = 1002, role = Assistant, content = ''A'', created_at = ''t''\<rparr>,
           \<lparr>msg_id = 1003, role = Assistant, content = ''AB'', created_at = ''t''\<rparr>]"
    by (simp add: fresh_def initialState_def signed_in_def)
  ultimately show ?thesis
    by simp
qed

end
